theory Spec2Isabelle
  imports Main "HOL-Library.Sublist"
begin

section \<open>Go library functions called by the client\<close>

text \<open>
  The SSH client of package \<open>ssh\<close> (GoCryptoClient, goCryptoCommand) calls a few functions
  of the Go standard library on strings. They are written out here on byte strings, with
  the behaviour the Go documentation gives them.
\<close>

subsection \<open>strings\<close>

text \<open>
  \<open>strings.Replace(s, old, new, -1)\<close>: every non-overlapping occurrence of \<open>old\<close> in
  \<open>s\<close>, found from the left, is replaced by \<open>new\<close>. For an empty \<open>old\<close> Go puts
  \<open>new\<close> in front of every character and at the end (here per byte; the client only
  passes the two-byte tokens \<open>%h\<close>, \<open>%p\<close>, \<open>%r\<close>).
\<close>

function Replace :: "string \<Rightarrow> string \<Rightarrow> string \<Rightarrow> string" where
  "Replace s old new =
     (if old = [] then new @ concat (map (\<lambda>c. c # new) s)
      else if s = [] then []
      else if prefix old s then new @ Replace (drop (length old) s) old new
      else hd s # Replace (tl s) old new)"
  by pat_completeness auto
termination
  by (relation "measure (\<lambda>(s, old, new). length s)") auto

declare Replace.simps [simp del]

text \<open>
  \<open>strings.SplitN(s, sep, 2)\<close> for a one-byte separator: the string is cut at the first
  occurrence of the separator into two pieces; without the separator the result is the
  one-element slice holding \<open>s\<close>.
\<close>

definition SplitN2 :: "string \<Rightarrow> char \<Rightarrow> string list" where
  "SplitN2 s sep =
     (if sep \<in> set s
      then [takeWhile (\<lambda>c. c \<noteq> sep) s, tl (dropWhile (\<lambda>c. c \<noteq> sep) s)]
      else [s])"

text \<open>Index of the first and of the last occurrence of a byte (Go returns -1 for none).\<close>

fun IndexByte :: "string \<Rightarrow> char \<Rightarrow> nat option" where
  "IndexByte [] c = None"
| "IndexByte (x # xs) c = (if x = c then Some 0 else map_option Suc (IndexByte xs c))"

definition LastIndexByte :: "string \<Rightarrow> char \<Rightarrow> nat option" where
  "LastIndexByte s c = map_option (\<lambda>i. length s - 1 - i) (IndexByte (rev s) c)"

subsection \<open>strconv\<close>

text \<open>\<open>strconv.Itoa\<close>: the decimal representation of an integer.\<close>

definition digit :: "nat \<Rightarrow> char" where
  "digit d = ''0123456789'' ! d"

function natDec :: "nat \<Rightarrow> string" where
  "natDec n = (if n < 10 then [digit n] else natDec (n div 10) @ [digit (n mod 10)])"
  by pat_completeness auto
termination
  by (relation "measure id") auto

declare natDec.simps [simp del]

definition Itoa :: "int \<Rightarrow> string" where
  "Itoa i = (if i < 0 then CHR ''-'' # natDec (nat (- i)) else natDec (nat i))"

subsection \<open>net\<close>

text \<open>
  \<open>net.JoinHostPort\<close>: \<open>host:port\<close>, with the host in square brackets when it contains
  a colon.
\<close>

definition JoinHostPort :: "string \<Rightarrow> string \<Rightarrow> string" where
  "JoinHostPort host port =
     (if CHR '':'' \<in> set host then ''['' @ host @ '']:'' @ port
      else host @ '':'' @ port)"

text \<open>
  \<open>net.SplitHostPort\<close>: splits \<open>host:port\<close>, \<open>[host]:port\<close> at the last colon. The
  function is followed branch by branch; its errors are the AddrError values below, and
  on every error both returned strings are empty.
\<close>

datatype AddrError =
    MissingPort | TooManyColons | MissingBracket | UnexpectedOpen | UnexpectedClose

definition SplitHostPort :: "string \<Rightarrow> AddrError + (string \<times> string)" where
  "SplitHostPort hostport =
     (case LastIndexByte hostport CHR '':'' of
        None \<Rightarrow> Inl MissingPort
      | Some i \<Rightarrow>
          let rest = (\<lambda>host j k.
                if IndexByte (drop j hostport) CHR ''['' \<noteq> None then Inl UnexpectedOpen
                else if IndexByte (drop k hostport) CHR '']'' \<noteq> None then Inl UnexpectedClose
                else Inr (host, drop (i + 1) hostport))
          in if hd hostport = CHR ''[''
             then (case IndexByte hostport CHR '']'' of
                     None \<Rightarrow> Inl MissingBracket
                   | Some e \<Rightarrow>
                       if e + 1 = length hostport then Inl MissingPort
                       else if e + 1 = i then rest (take (e - 1) (drop 1 hostport)) 1 (e + 1)
                       else if hostport ! (e + 1) = CHR '':'' then Inl TooManyColons
                       else Inl MissingPort)
             else (let host = take i hostport
                   in if IndexByte host CHR '':'' \<noteq> None then Inl TooManyColons
                      else rest host 0 0))"

section \<open>Data model\<close>

text \<open>
  Signers, readers and writers are opaque: only their identity matters here. Errors are
  either made by this package with \<open>errors.Errorf\<close> or come back from a call to the
  outside (the operating system, the network, the SSH library).
\<close>

type_synonym Signer = nat

datatype error =
    Errorf string               \<comment> \<open>\<open>errors.Errorf(msg)\<close>\<close>
  | ErrorfV string error        \<comment> \<open>\<open>errors.Errorf(msg + "%v", err)\<close>\<close>
  | External nat                \<comment> \<open>an error value returned by a call to the outside\<close>

text \<open>
  A \<open>[]string\<close> is a reference to a backing array: \<open>None\<close> is the nil slice, \<open>Some a\<close>
  the slice over the whole array stored at address \<open>a\<close>. Two slices with the same address
  share their elements.
\<close>

type_synonym StrSlice = "nat option"

text \<open>
  The fields of \<open>Options\<close> that Command reads. The type is declared in another file of the
  package; \<open>port\<close> is an int (0 when unset) and \<open>proxyCommand\<close> a \<open>[]string\<close>.
\<close>

record Options =
  opt_port :: int
  opt_proxyCommand :: StrSlice

record GoCryptoClient =
  client_signers :: "Signer list"

record ClientConfig =
  User :: string
  Auth :: "Signer list"        \<comment> \<open>the signers the PublicKeysCallback returns\<close>

text \<open>
  A byte-stream (a \<open>net.Conn\<close>: a TCP connection, or the client end of an in-memory
  pipe) is named by a number. A \<open>*ssh.Client\<close> is made by \<open>ssh.NewClient\<close> around one
  connection and is named by the byte-stream it runs on.
\<close>

type_synonym Conn = nat

type_synonym Client = Conn

record Session =                 \<comment> \<open>a \<open>*ssh.Session\<close>\<close>
  sess_id :: nat
  Stdin :: "nat option"
  Stdout :: "nat option"
  Stderr :: "nat option"

record goCryptoCommand =
  signers :: "Signer list"
  user :: string
  addr :: string
  command :: string
  proxyCommand :: StrSlice
  stdin :: "nat option"
  stdout :: "nat option"
  stderr :: "nat option"
  client :: "Client option"
  sess :: "Session option"

text \<open>
  Every call this code makes to the outside is recorded, in order, in a trace, and so is
  what the SSH library does with a byte-stream inside \<open>ssh.Dial\<close> and
  \<open>ssh.NewClientConn\<close>. The world is that trace and the backing arrays of the string
  slices.
\<close>

datatype Event =
    EvPrivateKeys                              \<comment> \<open>\<open>privateKeys()\<close>: the process-wide key source is read\<close>
  | EvTraceRun string string int string        \<comment> \<open>\<open>logger.Tracef\<close> in Command\<close>
  | EvTraceProxy "string list"                 \<comment> \<open>\<open>logger.Tracef\<close> in sshDialWithProxy\<close>
  | EvUserCurrent                              \<comment> \<open>\<open>user.Current()\<close>\<close>
  | EvSshDial string ClientConfig              \<comment> \<open>\<open>ssh.Dial("tcp", addr, config)\<close>\<close>
  | EvConnOpen Conn                            \<comment> \<open>\<open>net.Dial\<close> inside \<open>ssh.Dial\<close> returned this connection\<close>
  | EvNetPipe Conn                             \<comment> \<open>\<open>net.Pipe()\<close>, with the client end of the new pipe\<close>
  | EvCmdStart "string list"                   \<comment> \<open>\<open>exec.Command(argv[0], argv[1:]...).Start()\<close>\<close>
  | EvNewClientConn Conn string ClientConfig   \<comment> \<open>\<open>ssh.NewClientConn(c, addr, config)\<close>: the handshake on \<open>c\<close>\<close>
  | EvConnClose Conn                           \<comment> \<open>\<open>c.Close()\<close> inside \<open>ssh.NewClientConn\<close>\<close>
  | EvNewSession Client                        \<comment> \<open>\<open>client.NewSession()\<close>\<close>
  | EvClientClose Client                       \<comment> \<open>\<open>client.Close()\<close>\<close>
  | EvSessClose Session                        \<comment> \<open>\<open>sess.Close()\<close>\<close>
  | EvSessShell Session                        \<comment> \<open>\<open>sess.Shell()\<close>\<close>
  | EvSessStart Session string                 \<comment> \<open>\<open>sess.Start(cmd)\<close>: an exec request\<close>
  | EvSessWait Session                         \<comment> \<open>\<open>sess.Wait()\<close>\<close>
  | EvSessSignal Session                       \<comment> \<open>\<open>sess.Signal(ssh.SIGKILL)\<close>\<close>
  | EvStdinPipe Session
  | EvStdoutPipe Session
  | EvStderrPipe Session

record World =
  trace :: "Event list"
  heap :: "nat \<Rightarrow> string list"

definition emit :: "Event list \<Rightarrow> World \<Rightarrow> World" where
  "emit evs w = w\<lparr>trace := trace w @ evs\<rparr>"

text \<open>
  What the outside answers. Each field gives the result of one kind of call; the
  theorems hold for every environment.
\<close>

record Env =
  privateKeys :: "Signer list"                              \<comment> \<open>result of \<open>privateKeys()\<close>\<close>
  userCurrent :: "error + string"                           \<comment> \<open>\<open>user.Current()\<close>, its Username\<close>
  netDial :: "string \<Rightarrow> error + Conn"                    \<comment> \<open>\<open>net.Dial("tcp", addr)\<close>\<close>
  netPipe :: Conn                                           \<comment> \<open>\<open>net.Pipe()\<close>, its client end\<close>
  cmdStart :: "string list \<Rightarrow> error option"
  clientHandshake :: "Conn \<Rightarrow> string \<Rightarrow> ClientConfig \<Rightarrow> error option"
  newSession :: "Client \<Rightarrow> error + nat"
  clientClose :: "Client \<Rightarrow> error option"
  sessClose :: "Session \<Rightarrow> error option"
  sessShell :: "Session \<Rightarrow> error option"
  sessStart :: "Session \<Rightarrow> string \<Rightarrow> error option"
  sessWait :: "Session \<Rightarrow> error option"
  sessSignal :: "Session \<Rightarrow> error option"
  sessStdinPipe :: "Session \<Rightarrow> nat option \<times> error option"
  sessStdoutPipe :: "Session \<Rightarrow> nat option \<times> error option"
  sessStderrPipe :: "Session \<Rightarrow> nat option \<times> error option"

section \<open>The SSH library\<close>

text \<open>
  The two functions of \<open>golang.org/x/crypto/ssh\<close> through which the client connects.
  \<open>ssh.NewClientConn(c, addr, config)\<close> runs the client handshake (key exchange and
  authentication) on the connection \<open>c\<close>; when the handshake fails it closes \<open>c\<close> and
  returns the error \<open>ssh: handshake failed: ...\<close>. \<open>ssh.Dial(network, addr, config)\<close>
  connects with \<open>net.Dial\<close>, returns the error of a failed connect, and otherwise calls
  \<open>ssh.NewClientConn\<close> on the new connection and wraps the result with \<open>ssh.NewClient\<close>.
\<close>

definition ssh_NewClientConn ::
  "Env \<Rightarrow> Conn \<Rightarrow> string \<Rightarrow> ClientConfig \<Rightarrow> World \<Rightarrow> (error + Client) \<times> World" where
  "ssh_NewClientConn env c address config w =
     (let w1 = emit [EvNewClientConn c address config] w
      in (case clientHandshake env c address config of
            Some err \<Rightarrow> (Inl (ErrorfV ''ssh: handshake failed: '' err), emit [EvConnClose c] w1)
          | None \<Rightarrow> (Inr c, w1)))"

definition ssh_Dial ::
  "Env \<Rightarrow> string \<Rightarrow> ClientConfig \<Rightarrow> World \<Rightarrow> (error + Client) \<times> World" where
  "ssh_Dial env address config w =
     (let w1 = emit [EvSshDial address config] w
      in (case netDial env address of
            Inl err \<Rightarrow> (Inl err, w1)
          | Inr c \<Rightarrow> ssh_NewClientConn env c address config (emit [EvConnOpen c] w1)))"

section \<open>The client\<close>

subsection \<open>Helpers of the package\<close>

text \<open>
  Modelled from the spec: \<open>utils.CommandString\<close> is not among the sources. The spec says
  that the argv is pre-joined into a single shell command string and that
  \<open>["echo","hi"]\<close> is sent as \<open>echo hi\<close>: the arguments are joined by single spaces.
\<close>

fun CommandString :: "string list \<Rightarrow> string" where
  "CommandString [] = []"
| "CommandString [a] = a"
| "CommandString (a # b # bs) = a @ '' '' @ CommandString (b # bs)"

definition splitUserHost :: "string \<Rightarrow> string \<times> string" where
  "splitUserHost s =
     (let userHost = SplitN2 s CHR ''@''
      in if length userHost = 2 then (userHost ! 0, userHost ! 1)
         else ('''', userHost ! 0))"

definition sshDefaultPort :: int where
  "sshDefaultPort = 22"

subsection \<open>GoCryptoClient.Command\<close>

text \<open>
  \<open>options\<close> is a pointer and may be nil. The port is a Go int; nothing is computed with
  it, so it is an unbounded integer here.
\<close>

definition Command ::
  "Env \<Rightarrow> GoCryptoClient \<Rightarrow> string \<Rightarrow> string list \<Rightarrow> Options option \<Rightarrow> World
     \<Rightarrow> goCryptoCommand \<times> World" where
  "Command env c host cmd options w =
     (let shellCommand = CommandString cmd;
          (sgn, w1) = (if length (client_signers c) = 0
                       then (privateKeys env, emit [EvPrivateKeys] w)
                       else (client_signers c, w));
          (usr, hst) = splitUserHost host;
          port = (case options of
                    None \<Rightarrow> sshDefaultPort
                  | Some opt \<Rightarrow> if opt_port opt \<noteq> 0 then opt_port opt else sshDefaultPort);
          proxy = (case options of None \<Rightarrow> None | Some opt \<Rightarrow> opt_proxyCommand opt);
          w2 = emit [EvTraceRun usr hst port shellCommand] w1
      in (\<lparr>signers = sgn, user = usr, addr = JoinHostPort hst (Itoa port),
           command = shellCommand, proxyCommand = proxy,
           stdin = None, stdout = None, stderr = None, client = None, sess = None\<rparr>, w2))"

text \<open>\<open>GoCryptoClient.Copy\<close> always returns the same error.\<close>

definition Copy :: "GoCryptoClient \<Rightarrow> string list \<Rightarrow> Options option \<Rightarrow> error option" where
  "Copy c args options =
     Some (Errorf ''scp command is not implemented (OpenSSH scp not available in PATH)'')"

subsection \<open>sshDialWithProxy\<close>

text \<open>The body of the loop over the proxy command: the three replacements of one argument.\<close>

definition substArg :: "string \<Rightarrow> string \<Rightarrow> string \<Rightarrow> string \<Rightarrow> string" where
  "substArg host port usr arg =
     (let arg1 = Replace arg ''%h'' host;
          arg2 = (if port \<noteq> '''' then Replace arg1 ''%p'' port else arg1)
      in Replace arg2 ''%r'' usr)"

text \<open>
  The package variable \<open>sshDial\<close> holds \<open>ssh.Dial\<close>. The loop reads element \<open>i\<close> and
  writes its replacement back to \<open>proxyCommand[i]\<close>, that is into the backing array of
  the slice it was given. A failed \<open>net.SplitHostPort\<close> leaves the port empty and makes
  the host the whole address. The client end of the pipe goes to \<open>ssh.NewClientConn\<close>;
  the function itself closes nothing on any path.
\<close>

definition sshDialWithProxy ::
  "Env \<Rightarrow> string \<Rightarrow> StrSlice \<Rightarrow> ClientConfig \<Rightarrow> World \<Rightarrow> (error + Client) \<times> World" where
  "sshDialWithProxy env address proxy config w =
     (case proxy of
        None \<Rightarrow> ssh_Dial env address config w
      | Some a \<Rightarrow>
          if length (heap w a) = 0
          then ssh_Dial env address config w
          else
            let (host, port) = (case SplitHostPort address of
                                  Inl err \<Rightarrow> (address, '''')
                                | Inr hp \<Rightarrow> hp);
                argv = map (substArg host port (User config)) (heap w a);
                w1 = w\<lparr>heap := (heap w)(a := argv)\<rparr>;
                pipeEnd = netPipe env;
                w2 = emit [EvNetPipe pipeEnd, EvTraceProxy argv, EvCmdStart argv] w1
            in (case cmdStart env argv of
                  Some err \<Rightarrow> (Inl err, w2)
                | None \<Rightarrow> ssh_NewClientConn env pipeEnd address config w2))"

subsection \<open>goCryptoCommand\<close>

definition ensureSession ::
  "Env \<Rightarrow> goCryptoCommand \<Rightarrow> World \<Rightarrow> (error + Session) \<times> goCryptoCommand \<times> World" where
  "ensureSession env c w =
     (case sess c of
        Some s \<Rightarrow> (Inr s, c, w)
      | None \<Rightarrow>
          if length (signers c) = 0
          then (Inl (Errorf ''no private keys available''), c, w)
          else
            (case (if user c = ''''
                   then (case userCurrent env of
                           Inl err \<Rightarrow> Inl (ErrorfV ''getting current user: '' err)
                         | Inr name \<Rightarrow> Inr (c\<lparr>user := name\<rparr>, emit [EvUserCurrent] w))
                   else Inr (c, w)) of
               Inl e \<Rightarrow> (Inl e, c, emit [EvUserCurrent] w)
             | Inr (c1, w1) \<Rightarrow>
                 let config = \<lparr>User = user c1, Auth = signers c1\<rparr>
                 in (case sshDialWithProxy env (addr c1) (proxyCommand c1) config w1 of
                       (Inl err, w2) \<Rightarrow> (Inl err, c1, w2)
                     | (Inr cl, w2) \<Rightarrow>
                         let w3 = emit [EvNewSession cl] w2
                         in (case newSession env cl of
                               Inl err \<Rightarrow> (Inl err, c1, emit [EvClientClose cl] w3)
                             | Inr n \<Rightarrow>
                                 let s = \<lparr>sess_id = n, Stdin = stdin c1,
                                          Stdout = stdout c1, Stderr = stderr c1\<rparr>
                                 in (Inr s, c1\<lparr>client := Some cl, sess := Some s\<rparr>, w3)))))"

definition Start ::
  "Env \<Rightarrow> goCryptoCommand \<Rightarrow> World \<Rightarrow> error option \<times> goCryptoCommand \<times> World" where
  "Start env c w =
     (case ensureSession env c w of
        (Inl err, c1, w1) \<Rightarrow> (Some err, c1, w1)
      | (Inr s, c1, w1) \<Rightarrow>
          if command c1 = '''' then (sessShell env s, c1, emit [EvSessShell s] w1)
          else (sessStart env s (command c1), c1, emit [EvSessStart s (command c1)] w1))"

text \<open>
  \<open>Close\<close> calls \<open>c.client.Close()\<close> whenever \<open>c.sess\<close> is not nil; with a nil
  \<open>c.client\<close> that call panics.
\<close>

datatype 'a result = Return 'a | Panic

definition Close ::
  "Env \<Rightarrow> goCryptoCommand \<Rightarrow> World \<Rightarrow> error option result \<times> goCryptoCommand \<times> World" where
  "Close env c w =
     (case sess c of
        None \<Rightarrow> (Return None, c, w)
      | Some s \<Rightarrow>
          let err0 = sessClose env s;
              w1 = emit [EvSessClose s] w
          in (case client c of
                None \<Rightarrow> (Panic, c, w1)
              | Some cl \<Rightarrow>
                  let err1 = clientClose env cl;
                      w2 = emit [EvClientClose cl] w1;
                      err0' = (if err0 = None then err1 else err0)
                  in (Return err0', c\<lparr>sess := None, client := None\<rparr>, w2)))"

definition Wait ::
  "Env \<Rightarrow> goCryptoCommand \<Rightarrow> World \<Rightarrow> error option result \<times> goCryptoCommand \<times> World" where
  "Wait env c w =
     (case sess c of
        None \<Rightarrow> (Return (Some (Errorf ''command has not been started'')), c, w)
      | Some s \<Rightarrow>
          let err = sessWait env s;
              w1 = emit [EvSessWait s] w
          in (case Close env c w1 of
                (Panic, c2, w2) \<Rightarrow> (Panic, c2, w2)
              | (Return x, c2, w2) \<Rightarrow> (Return err, c2, w2)))"

definition Kill ::
  "Env \<Rightarrow> goCryptoCommand \<Rightarrow> World \<Rightarrow> error option \<times> goCryptoCommand \<times> World" where
  "Kill env c w =
     (case sess c of
        None \<Rightarrow> (Some (Errorf ''command has not been started''), c, w)
      | Some s \<Rightarrow> (sessSignal env s, c, emit [EvSessSignal s] w))"

definition SetStdio ::
  "nat option \<Rightarrow> nat option \<Rightarrow> nat option \<Rightarrow> goCryptoCommand \<Rightarrow> goCryptoCommand" where
  "SetStdio i out err c = c\<lparr>stdin := i, stdout := out, stderr := err\<rparr>"

text \<open>
  The three pipe functions return the pipe of the session, the stream set with SetStdio
  and the error of the pipe request; \<open>ioutil.NopCloser\<close> wraps the reader of the two
  output pipes, so that value is never nil on that path.
\<close>

definition StdinPipe ::
  "Env \<Rightarrow> goCryptoCommand \<Rightarrow> World
     \<Rightarrow> (nat option \<times> nat option \<times> error option) \<times> goCryptoCommand \<times> World" where
  "StdinPipe env c w =
     (case ensureSession env c w of
        (Inl err, c1, w1) \<Rightarrow> ((None, None, Some err), c1, w1)
      | (Inr s, c1, w1) \<Rightarrow>
          (case sessStdinPipe env s of
             (wc, err) \<Rightarrow> ((wc, Stdin s, err), c1, emit [EvStdinPipe s] w1)))"

definition StdoutPipe ::
  "Env \<Rightarrow> goCryptoCommand \<Rightarrow> World
     \<Rightarrow> (nat option option \<times> nat option \<times> error option) \<times> goCryptoCommand \<times> World" where
  "StdoutPipe env c w =
     (case ensureSession env c w of
        (Inl err, c1, w1) \<Rightarrow> ((None, None, Some err), c1, w1)
      | (Inr s, c1, w1) \<Rightarrow>
          (case sessStdoutPipe env s of
             (wc, err) \<Rightarrow> ((Some wc, Stdout s, err), c1, emit [EvStdoutPipe s] w1)))"

definition StderrPipe ::
  "Env \<Rightarrow> goCryptoCommand \<Rightarrow> World
     \<Rightarrow> (nat option option \<times> nat option \<times> error option) \<times> goCryptoCommand \<times> World" where
  "StderrPipe env c w =
     (case ensureSession env c w of
        (Inl err, c1, w1) \<Rightarrow> ((None, None, Some err), c1, w1)
      | (Inr s, c1, w1) \<Rightarrow>
          (case sessStderrPipe env s of
             (wc, err) \<Rightarrow> ((Some wc, Stderr s, err), c1, emit [EvStderrPipe s] w1)))"

section \<open>Observations on traces and example inputs\<close>

text \<open>The argv of every proxy process that a trace starts, in order.\<close>

fun spawnArgv :: "Event \<Rightarrow> string list option" where
  "spawnArgv (EvCmdStart argv) = Some argv"
| "spawnArgv ev = None"

definition spawned :: "Event list \<Rightarrow> string list list" where
  "spawned evs = List.map_filter spawnArgv evs"







text \<open>
  An environment in which every call to the outside succeeds and the process-wide key
  source is empty; a world with the proxy template \<open>["nc","%h","%p"]\<close> at address 0; a
  client with one signer; options that name the template and set no port.
\<close>

definition ex_env :: Env where
  "ex_env = \<lparr>privateKeys = [], userCurrent = Inr ''me'',
     netDial = (\<lambda>a. Inr 1), netPipe = 2, cmdStart = (\<lambda>argv. None),
     clientHandshake = (\<lambda>c a cfg. None), newSession = (\<lambda>cl. Inr 3),
     clientClose = (\<lambda>cl. None), sessClose = (\<lambda>s. None), sessShell = (\<lambda>s. None),
     sessStart = (\<lambda>s x. None), sessWait = (\<lambda>s. None), sessSignal = (\<lambda>s. None),
     sessStdinPipe = (\<lambda>s. (None, None)), sessStdoutPipe = (\<lambda>s. (None, None)),
     sessStderrPipe = (\<lambda>s. (None, None))\<rparr>"

definition ex_world :: World where
  "ex_world = \<lparr>trace = [], heap = (\<lambda>a. if a = 0 then [''nc'', ''%h'', ''%p''] else [])\<rparr>"

definition ex_client :: GoCryptoClient where
  "ex_client = \<lparr>client_signers = [7]\<rparr>"

definition ex_options :: Options where
  "ex_options = \<lparr>opt_port = 0, opt_proxyCommand = Some 0\<rparr>"

definition ex_nokeys_client :: GoCryptoClient where
  "ex_nokeys_client = \<lparr>client_signers = []\<rparr>"

text \<open>A handle that was never started, and one with a live session.\<close>

definition ex_idle :: goCryptoCommand where
  "ex_idle = \<lparr>signers = [7], user = ''alice'', addr = ''host:22'', command = ''ls'',
     proxyCommand = None, stdin = None, stdout = None, stderr = None,
     client = None, sess = None\<rparr>"

definition ex_session :: Session where
  "ex_session = \<lparr>sess_id = 3, Stdin = None, Stdout = None, Stderr = None\<rparr>"

definition ex_live :: goCryptoCommand where
  "ex_live = ex_idle\<lparr>client := Some 1, sess := Some ex_session\<rparr>"

text \<open>Options that name the template and set the port 5432.\<close>

definition ex_options_5432 :: Options where
  "ex_options_5432 = \<lparr>opt_port = 5432, opt_proxyCommand = Some 0\<rparr>"

text \<open>
  An environment whose process-wide key source holds one key. Two handles made from the
  same options, one after the other: the first for host \<open>db\<close>, the second for host
  \<open>other\<close>, each followed by its session establishment.
\<close>

definition ex_env_keys :: Env where
  "ex_env_keys = ex_env\<lparr>privateKeys := [7]\<rparr>"

definition ex_first :: "goCryptoCommand \<times> World" where
  "ex_first = Command ex_env ex_client ''db'' [''ls''] (Some ex_options_5432) ex_world"

definition ex_first_est :: "(error + Session) \<times> goCryptoCommand \<times> World" where
  "ex_first_est = ensureSession ex_env (fst ex_first) (snd ex_first)"

definition ex_second :: "goCryptoCommand \<times> World" where
  "ex_second =
     Command ex_env ex_client ''other'' [''ls''] (Some ex_options_5432) (snd (snd ex_first_est))"

definition ex_second_est :: "(error + Session) \<times> goCryptoCommand \<times> World" where
  "ex_second_est = ensureSession ex_env (fst ex_second) (snd ex_second)"

text \<open>
  Environments in which every handshake fails, or the opening of the session channel
  fails; a handle that dials through the proxy template at address 0.
\<close>

definition ex_env_handshake_fails :: Env where
  "ex_env_handshake_fails = ex_env\<lparr>clientHandshake := (\<lambda>c a cfg. Some (External 1))\<rparr>"

definition ex_env_channel_fails :: Env where
  "ex_env_channel_fails = ex_env\<lparr>newSession := (\<lambda>cl. Inl (External 2))\<rparr>"

definition ex_proxied :: goCryptoCommand where
  "ex_proxied = ex_idle\<lparr>proxyCommand := Some 0\<rparr>"

text \<open>
  An environment in which the proxy process cannot be started, and the events of a
  session establishment through the proxy whose handshake fails.
\<close>

definition ex_env_spawn_fails :: Env where
  "ex_env_spawn_fails = ex_env\<lparr>cmdStart := (\<lambda>argv. Some (External 3))\<rparr>"


section \<open>Basic facts\<close>

lemma emit_emit: "emit ys (emit xs w) = emit (xs @ ys) w"
  by (simp add: emit_def)

lemma trace_emit: "trace (emit evs w) = trace w @ evs"
  by (simp add: emit_def)

lemma heap_emit: "heap (emit evs w) = heap w"
  by (simp add: emit_def)

lemma spawned_append: "spawned (xs @ ys) = spawned xs @ spawned ys"
  by (simp add: spawned_def map_filter_def)

lemma SplitN2_cut: "sep \<notin> set u \<Longrightarrow> SplitN2 (u @ sep # h) sep = [u, h]"
  by (induction u) (auto simp: SplitN2_def)

lemma SplitN2_whole: "sep \<notin> set s \<Longrightarrow> SplitN2 s sep = [s]"
  by (simp add: SplitN2_def)

lemma Close_no_session: "sess c = None \<Longrightarrow> Close env c w = (Return None, c, w)"
  by (simp add: Close_def)

lemma Close_live:
  "sess c = Some s \<Longrightarrow> client c = Some cl \<Longrightarrow>
   Close env c w =
     (Return (if sessClose env s = None then clientClose env cl else sessClose env s),
      c\<lparr>sess := None, client := None\<rparr>, emit [EvSessClose s, EvClientClose cl] w)"
  by (simp add: Close_def Let_def emit_emit)

lemma Close_returns_closed: "Close env c w = (Return r, c', w') \<Longrightarrow> sess c' = None"
  by (auto simp: Close_def Let_def split: option.splits)

lemma Wait_returns_closed: "Wait env c w = (Return r, c', w') \<Longrightarrow> sess c' = None"
  by (auto simp: Wait_def Let_def split: option.splits prod.splits result.splits
      dest: Close_returns_closed)

lemma Wait_no_session:
  "sess c = None \<Longrightarrow>
   Wait env c w = (Return (Some (Errorf ''command has not been started'')), c, w)"
  by (simp add: Wait_def)

lemma Kill_no_session:
  "sess c = None \<Longrightarrow> Kill env c w = (Some (Errorf ''command has not been started''), c, w)"
  by (simp add: Kill_def)

lemma ensureSession_no_signers:
  "signers c = [] \<Longrightarrow> sess c = None \<Longrightarrow>
   ensureSession env c w = (Inl (Errorf ''no private keys available''), c, w)"
  by (simp add: ensureSession_def)

lemma Wait_live:
  "sess c = Some s \<Longrightarrow> client c = Some cl \<Longrightarrow>
   Wait env c w =
     (Return (sessWait env s), c\<lparr>sess := None, client := None\<rparr>,
      emit [EvSessWait s, EvSessClose s, EvClientClose cl] w)"
  by (simp add: Wait_def Let_def Close_live emit_emit)

lemma spawned_Nil: "spawned [] = []"
  by (simp add: spawned_def map_filter_def)

lemma spawned_Cons:
  "spawned (ev # evs) =
     (case spawnArgv ev of None \<Rightarrow> spawned evs | Some argv \<Rightarrow> argv # spawned evs)"
  by (simp add: spawned_def map_filter_def split: option.splits)

lemma substArg_no_port:
  "substArg host [] usr = (\<lambda>arg. Replace (Replace arg ''%h'' host) ''%r'' usr)"
  by (rule ext) (simp add: substArg_def)

lemma Command_unfold:
  "Command env k host cmd options w =
     (\<lparr>signers = (if client_signers k = [] then privateKeys env else client_signers k),
       user = fst (splitUserHost host),
       addr = JoinHostPort (snd (splitUserHost host))
                (Itoa (case options of
                         None \<Rightarrow> 22
                       | Some opt \<Rightarrow> if opt_port opt \<noteq> 0 then opt_port opt else 22)),
       command = CommandString cmd,
       proxyCommand = (case options of None \<Rightarrow> None | Some opt \<Rightarrow> opt_proxyCommand opt),
       stdin = None, stdout = None, stderr = None, client = None, sess = None\<rparr>,
      emit ((if client_signers k = [] then [EvPrivateKeys] else []) @
            [EvTraceRun (fst (splitUserHost host)) (snd (splitUserHost host))
               (case options of
                  None \<Rightarrow> 22
                | Some opt \<Rightarrow> if opt_port opt \<noteq> 0 then opt_port opt else 22)
               (CommandString cmd)]) w)"
  by (cases "splitUserHost host")
     (simp add: Command_def Let_def sshDefaultPort_def emit_emit split: option.splits)

lemma SplitHostPort_nohost: "SplitHostPort ''nohost'' = Inl MissingPort"
  by (simp add: SplitHostPort_def LastIndexByte_def Let_def)

lemma Replace_examples:
  "Replace (Replace ''nc'' ''%h'' ''nohost'') ''%r'' ''me'' = ''nc''"
  "Replace (Replace ''%h'' ''%h'' ''nohost'') ''%r'' ''me'' = ''nohost''"
  "Replace (Replace ''%p'' ''%h'' ''nohost'') ''%r'' ''me'' = ''%p''"
  by (simp_all add: Replace.simps)

lemma ssh_NewClientConn_heap: "heap (snd (ssh_NewClientConn env n a cfg w)) = heap w"
  by (simp add: ssh_NewClientConn_def Let_def heap_emit split: option.splits)

lemma ssh_NewClientConn_spawned:
  "spawned (trace (snd (ssh_NewClientConn env n a cfg w))) = spawned (trace w)"
  by (simp add: ssh_NewClientConn_def Let_def trace_emit spawned_append spawned_Cons
      spawned_Nil split: option.splits)

lemma sshDialWithProxy_proxy_heap:
  assumes "heap w a \<noteq> []"
  shows "heap (snd (sshDialWithProxy env ad (Some a) cfg w)) =
           (heap w)(a := map (substArg
              (fst (case SplitHostPort ad of Inl err \<Rightarrow> (ad, '''') | Inr hp \<Rightarrow> hp))
              (snd (case SplitHostPort ad of Inl err \<Rightarrow> (ad, '''') | Inr hp \<Rightarrow> hp))
              (User cfg)) (heap w a))"
  using assms
  by (simp add: sshDialWithProxy_def ssh_NewClientConn_heap Let_def heap_emit split_beta
      split: option.splits)

lemma sshDialWithProxy_proxy_spawned:
  assumes "heap w a \<noteq> []"
  shows "spawned (trace (snd (sshDialWithProxy env ad (Some a) cfg w))) =
           spawned (trace w) @ [map (substArg
              (fst (case SplitHostPort ad of Inl err \<Rightarrow> (ad, '''') | Inr hp \<Rightarrow> hp))
              (snd (case SplitHostPort ad of Inl err \<Rightarrow> (ad, '''') | Inr hp \<Rightarrow> hp))
              (User cfg)) (heap w a)]"
  using assms
  by (simp add: sshDialWithProxy_def ssh_NewClientConn_spawned Let_def trace_emit split_beta
      spawned_append spawned_Cons spawned_Nil split: option.splits)

lemma ensureSession_world:
  assumes "sess c = None" and "signers c \<noteq> []"
    and "user c \<noteq> [] \<or> userCurrent env = Inr u"
  shows "heap (snd (snd (ensureSession env c w))) =
           heap (snd (sshDialWithProxy env (addr c) (proxyCommand c)
             \<lparr>User = (if user c = [] then u else user c), Auth = signers c\<rparr>
             (if user c = [] then emit [EvUserCurrent] w else w)))"
    and "spawned (trace (snd (snd (ensureSession env c w)))) =
           spawned (trace (snd (sshDialWithProxy env (addr c) (proxyCommand c)
             \<lparr>User = (if user c = [] then u else user c), Auth = signers c\<rparr>
             (if user c = [] then emit [EvUserCurrent] w else w))))"
  using assms
  by (auto simp: ensureSession_def Let_def heap_emit trace_emit spawned_append
      spawned_Cons spawned_Nil split: option.splits sum.splits prod.splits)

lemma Itoa_5432: "Itoa 5432 = ''5432''"
  by (simp add: Itoa_def natDec.simps digit_def)

lemma Itoa_22: "Itoa 22 = ''22''"
  by (simp add: Itoa_def natDec.simps digit_def)

lemma splitUserHost_db: "splitUserHost ''db'' = ('''', ''db'')"
  by (simp add: splitUserHost_def SplitN2_whole)

lemma splitUserHost_db_5432: "splitUserHost ''db:5432'' = ('''', ''db:5432'')"
  by (simp add: splitUserHost_def SplitN2_whole)

lemma SplitHostPort_db_5432: "SplitHostPort ''db:5432'' = Inr (''db'', ''5432'')"
  by (simp add: SplitHostPort_def LastIndexByte_def Let_def)

lemma SplitHostPort_bracketed: "SplitHostPort ''[db:5432]:22'' = Inr (''db:5432'', ''22'')"
  by (simp add: SplitHostPort_def LastIndexByte_def Let_def)

lemma substArg_template:
  "substArg ''db'' ''5432'' u ''nc'' = ''nc''"
  "substArg ''db'' ''5432'' u ''%h'' = ''db''"
  "substArg ''db'' ''5432'' u ''%p'' = ''5432''"
  "substArg ''db:5432'' ''22'' u ''nc'' = ''nc''"
  "substArg ''db:5432'' ''22'' u ''%h'' = ''db:5432''"
  "substArg ''db:5432'' ''22'' u ''%p'' = ''22''"
  by (simp_all add: substArg_def Replace.simps)

lemma ensureSession_command:
  "ensureSession env c w = (r, c1, w1) \<Longrightarrow> command c1 = command c"
  by (auto simp: ensureSession_def Let_def split: option.splits sum.splits prod.splits if_splits)

lemma splitUserHost_other: "splitUserHost ''other'' = ('''', ''other'')"
  by (simp add: splitUserHost_def SplitN2_whole)

lemma SplitHostPort_other: "SplitHostPort ''other:5432'' = Inr (''other'', ''5432'')"
  by (simp add: SplitHostPort_def LastIndexByte_def Let_def)

lemma substArg_substituted:
  "substArg ''other'' ''5432'' u ''nc'' = ''nc''"
  "substArg ''other'' ''5432'' u ''db'' = ''db''"
  "substArg ''other'' ''5432'' u ''5432'' = ''5432''"
  by (simp_all add: substArg_def Replace.simps)

lemma ex_first_est_world:
  "heap (snd (snd ex_first_est)) 0 = [''nc'', ''db'', ''5432'']"
  "spawned (trace (snd (snd ex_first_est))) = [[''nc'', ''db'', ''5432'']]"
proof -
  let ?c = "fst ex_first"
  let ?w = "snd ex_first"
  have c: "sess ?c = None" "signers ?c \<noteq> []" "user ?c = []" "addr ?c = ''db:5432''"
      "proxyCommand ?c = Some 0"
    by (simp_all add: ex_first_def Command_unfold splitUserHost_db Itoa_5432 JoinHostPort_def
        ex_client_def ex_options_5432_def)
  have w: "heap ?w 0 = [''nc'', ''%h'', ''%p'']" "spawned (trace ?w) = []"
    by (simp_all add: ex_first_def Command_unfold heap_emit trace_emit spawned_append
        spawned_Cons spawned_Nil ex_world_def ex_client_def)
  have u: "user ?c \<noteq> [] \<or> userCurrent ex_env = Inr ''me''"
    by (simp add: ex_env_def)
  have h: "heap (emit [EvUserCurrent] ?w) 0 \<noteq> []"
    using w by (simp add: heap_emit)
  show "heap (snd (snd ex_first_est)) 0 = [''nc'', ''db'', ''5432'']"
    using ensureSession_world(1) [OF c(1) c(2) u, of ?w]
      sshDialWithProxy_proxy_heap [OF h, of ex_env "''db:5432''"
        "\<lparr>User = ''me'', Auth = signers ?c\<rparr>"]
    by (simp add: ex_first_est_def c w heap_emit SplitHostPort_db_5432 substArg_template)
  show "spawned (trace (snd (snd ex_first_est))) = [[''nc'', ''db'', ''5432'']]"
    using ensureSession_world(2) [OF c(1) c(2) u, of ?w]
      sshDialWithProxy_proxy_spawned [OF h, of ex_env "''db:5432''"
        "\<lparr>User = ''me'', Auth = signers ?c\<rparr>"]
    by (simp add: ex_first_est_def c w heap_emit trace_emit spawned_append spawned_Cons
        spawned_Nil SplitHostPort_db_5432 substArg_template)
qed

lemma splitUserHost_host: "splitUserHost ''host'' = ('''', ''host'')"
  by (simp add: splitUserHost_def SplitN2_whole)

lemma splitUserHost_alice: "splitUserHost ''alice@host'' = (''alice'', ''host'')"
  using SplitN2_cut [of "CHR ''@''" "''alice''" "''host''"]
  by (simp add: splitUserHost_def)

lemma ensureSession_ex_idle:
  "ensureSession ex_env ex_idle ex_world =
     (Inr ex_session, ex_idle\<lparr>client := Some 1, sess := Some ex_session\<rparr>,
      emit [EvSshDial ''host:22'' \<lparr>User = ''alice'', Auth = [7]\<rparr>, EvConnOpen 1,
            EvNewClientConn 1 ''host:22'' \<lparr>User = ''alice'', Auth = [7]\<rparr>,
            EvNewSession 1] ex_world)"
  by (simp add: ensureSession_def sshDialWithProxy_def ssh_Dial_def ssh_NewClientConn_def
      Let_def ex_idle_def ex_env_def ex_session_def emit_emit)












lemma ensureSession_channel_fails:
  "ensureSession ex_env_channel_fails ex_idle ex_world =
     (Inl (External 2), ex_idle,
      emit [EvSshDial ''host:22'' \<lparr>User = ''alice'', Auth = [7]\<rparr>, EvConnOpen 1,
            EvNewClientConn 1 ''host:22'' \<lparr>User = ''alice'', Auth = [7]\<rparr>,
            EvNewSession 1, EvClientClose 1] ex_world)"
  by (simp add: ensureSession_def sshDialWithProxy_def ssh_Dial_def ssh_NewClientConn_def
      Let_def ex_idle_def ex_env_channel_fails_def ex_env_def emit_emit)

lemma SplitHostPort_host_22: "SplitHostPort ''host:22'' = Inr (''host'', ''22'')"
  by (simp add: SplitHostPort_def LastIndexByte_def Let_def)

lemma substArg_host_22:
  "substArg ''host'' ''22'' ''alice'' ''nc'' = ''nc''"
  "substArg ''host'' ''22'' ''alice'' ''%h'' = ''host''"
  "substArg ''host'' ''22'' ''alice'' ''%p'' = ''22''"
  by (simp_all add: substArg_def Replace.simps)


lemma ensureSession_direct_handshake_fails:
  "ensureSession ex_env_handshake_fails ex_idle ex_world =
     (Inl (ErrorfV ''ssh: handshake failed: '' (External 1)), ex_idle,
      emit [EvSshDial ''host:22'' \<lparr>User = ''alice'', Auth = [7]\<rparr>, EvConnOpen 1,
            EvNewClientConn 1 ''host:22'' \<lparr>User = ''alice'', Auth = [7]\<rparr>,
            EvConnClose 1] ex_world)"
  by (simp add: ensureSession_def sshDialWithProxy_def ssh_Dial_def ssh_NewClientConn_def
      Let_def ex_idle_def ex_env_handshake_fails_def ex_env_def emit_emit)

lemma ensureSession_spawn_fails:
  "ensureSession ex_env_spawn_fails ex_proxied ex_world =
     (Inl (External 3), ex_proxied,
      emit [EvNetPipe 2, EvTraceProxy [''nc'', ''host'', ''22''],
            EvCmdStart [''nc'', ''host'', ''22'']]
        (ex_world\<lparr>heap := (heap ex_world)(0 := [''nc'', ''host'', ''22''])\<rparr>))"
  by (simp add: ensureSession_def sshDialWithProxy_def Let_def ex_proxied_def ex_idle_def
      ex_env_spawn_fails_def ex_env_def ex_world_def emit_def SplitHostPort_host_22
      substArg_host_22)

lemma ensureSession_user_fails:
  "sess c = None \<Longrightarrow> signers c \<noteq> [] \<Longrightarrow> user c = [] \<Longrightarrow> userCurrent env = Inl err \<Longrightarrow>
   ensureSession env c w =
     (Inl (ErrorfV ''getting current user: '' err), c, emit [EvUserCurrent] w)"
  by (simp add: ensureSession_def)

lemma proxy_spawn_db:
  assumes "heap w a = [''nc'', ''%h'', ''%p'']"
    and "client_signers k \<noteq> [] \<or> privateKeys env \<noteq> []"
    and "userCurrent env' = Inr u"
  shows "spawned (trace (snd (snd (ensureSession env'
           (fst (Command env k ''db'' cmd (Some \<lparr>opt_port = 5432, opt_proxyCommand = Some a\<rparr>) w))
           (snd (Command env k ''db'' cmd (Some \<lparr>opt_port = 5432, opt_proxyCommand = Some a\<rparr>) w))))))
         = spawned (trace w) @ [[''nc'', ''db'', ''5432'']]"
proof -
  let ?c = "fst (Command env k ''db'' cmd (Some \<lparr>opt_port = 5432, opt_proxyCommand = Some a\<rparr>) w)"
  let ?w = "snd (Command env k ''db'' cmd (Some \<lparr>opt_port = 5432, opt_proxyCommand = Some a\<rparr>) w)"
  have c: "sess ?c = None" "signers ?c \<noteq> []" "user ?c = []" "addr ?c = ''db:5432''"
      "proxyCommand ?c = Some a"
    using assms(2)
    by (simp_all add: Command_unfold splitUserHost_db Itoa_5432 JoinHostPort_def)
  have w: "heap ?w = heap w" "spawned (trace ?w) = spawned (trace w)"
    by (simp_all add: Command_unfold heap_emit trace_emit spawned_append spawned_Cons spawned_Nil)
  have u: "user ?c \<noteq> [] \<or> userCurrent env' = Inr u"
    using assms(3) by simp
  have h: "heap (emit [EvUserCurrent] ?w) a \<noteq> []"
    using assms(1) w by (simp add: heap_emit)
  show ?thesis
    using ensureSession_world(2) [OF c(1) c(2) u, of ?w]
      sshDialWithProxy_proxy_spawned [OF h, of env' "''db:5432''"
        "\<lparr>User = u, Auth = signers ?c\<rparr>"]
    by (simp add: c w assms(1) heap_emit trace_emit spawned_append spawned_Cons spawned_Nil
        SplitHostPort_db_5432 substArg_template)
qed

section \<open>Splitting the host argument\<close>

text \<open>
  C9. A host string \<open>user@hostname\<close> whose user part has no \<open>@\<close> is split into exactly
  that user and that hostname (the hostname may itself contain \<open>@\<close>; neither part has to
  be non-empty); a host string without \<open>@\<close> gives the empty user and the whole string as
  hostname.
\<close>

theorem splitUserHost_recovers:
  "(CHR ''@'' \<notin> set u \<longrightarrow> splitUserHost (u @ ''@'' @ h) = (u, h)) \<and>
   (CHR ''@'' \<notin> set s \<longrightarrow> splitUserHost s = ('''', s))"
  by (simp add: splitUserHost_def SplitN2_cut SplitN2_whole)

theorem splitUserHost_recovers_witness:
  "splitUserHost ''alice@host'' = (''alice'', ''host'') \<and>
   splitUserHost ''host'' = ('''', ''host'')"
  using splitUserHost_recovers [of "''alice''" "''host''" "''host''"] by simp

section \<open>Lifecycle of a handle\<close>

text \<open>
  C6. On a handle with a live session (\<open>c.sess\<close> and \<open>c.client\<close> set), Wait waits for the
  remote command, then closes the session and the client connection that carries it, and
  returns what the wait returned, whatever that is; the handle it leaves has neither a
  session nor a client.
\<close>

theorem Wait_closes_session:
  assumes "sess c = Some s" and "client c = Some cl"
  shows "Wait env c w =
           (Return (sessWait env s), c\<lparr>sess := None, client := None\<rparr>,
            emit [EvSessWait s, EvSessClose s, EvClientClose cl] w)"
  using assms by (rule Wait_live)

theorem Wait_closes_session_witness:
  "sess ex_live = Some ex_session \<and> client ex_live = Some 1 \<and>
   Wait (ex_env\<lparr>sessWait := (\<lambda>s. Some (External 9))\<rparr>) ex_live ex_world =
     (Return (Some (External 9)), ex_live\<lparr>sess := None, client := None\<rparr>,
      emit [EvSessWait ex_session, EvSessClose ex_session, EvClientClose 1] ex_world)"
  using Wait_closes_session [of ex_live ex_session 1
      "ex_env\<lparr>sessWait := (\<lambda>s. Some (External 9))\<rparr>" ex_world]
  by (simp add: ex_live_def)

text \<open>
  C7. On a handle without a live session, Close returns no error and changes nothing,
  and Wait and Kill return the error "command has not been started" and change nothing.
  A handle is in that state after every Close and every Wait that returns, so Close may
  be repeated and may follow Wait.
\<close>

theorem no_session_lifecycle:
  "(sess c = None \<longrightarrow>
      Close env c w = (Return None, c, w) \<and>
      Wait env c w = (Return (Some (Errorf ''command has not been started'')), c, w) \<and>
      Kill env c w = (Some (Errorf ''command has not been started''), c, w)) \<and>
   (Close env1 d w1 = (Return r1, d', w1') \<longrightarrow>
      sess d' = None \<and> Close env2 d' w1' = (Return None, d', w1')) \<and>
   (Wait env3 e w3 = (Return r3, e', w3') \<longrightarrow>
      sess e' = None \<and> Close env4 e' w3' = (Return None, e', w3'))"
  by (auto simp: Close_no_session Wait_no_session Kill_no_session
      dest: Close_returns_closed Wait_returns_closed)

theorem no_session_lifecycle_witness:
  "sess ex_idle = None \<and>
   Close ex_env ex_idle ex_world = (Return None, ex_idle, ex_world) \<and>
   Wait ex_env ex_idle ex_world =
     (Return (Some (Errorf ''command has not been started'')), ex_idle, ex_world) \<and>
   Kill ex_env ex_idle ex_world =
     (Some (Errorf ''command has not been started''), ex_idle, ex_world) \<and>
   Close ex_env ex_live ex_world =
     (Return None, ex_live\<lparr>sess := None, client := None\<rparr>,
      emit [EvSessClose ex_session, EvClientClose 1] ex_world) \<and>
   Close ex_env (ex_live\<lparr>sess := None, client := None\<rparr>)
       (emit [EvSessClose ex_session, EvClientClose 1] ex_world) =
     (Return None, ex_live\<lparr>sess := None, client := None\<rparr>,
      emit [EvSessClose ex_session, EvClientClose 1] ex_world) \<and>
   Wait ex_env ex_live ex_world =
     (Return None, ex_live\<lparr>sess := None, client := None\<rparr>,
      emit [EvSessWait ex_session, EvSessClose ex_session, EvClientClose 1] ex_world) \<and>
   Close ex_env (ex_live\<lparr>sess := None, client := None\<rparr>)
       (emit [EvSessWait ex_session, EvSessClose ex_session, EvClientClose 1] ex_world) =
     (Return None, ex_live\<lparr>sess := None, client := None\<rparr>,
      emit [EvSessWait ex_session, EvSessClose ex_session, EvClientClose 1] ex_world)"
proof -
  have idle: "sess ex_idle = None"
    by (simp add: ex_idle_def)
  have live: "sess ex_live = Some ex_session" "client ex_live = Some 1"
    by (simp_all add: ex_live_def)
  have cl: "Close ex_env ex_live ex_world =
     (Return None, ex_live\<lparr>sess := None, client := None\<rparr>,
      emit [EvSessClose ex_session, EvClientClose 1] ex_world)"
    using Close_live [OF live, of ex_env ex_world] by (simp add: ex_env_def)
  have wt: "Wait ex_env ex_live ex_world =
     (Return None, ex_live\<lparr>sess := None, client := None\<rparr>,
      emit [EvSessWait ex_session, EvSessClose ex_session, EvClientClose 1] ex_world)"
    using Wait_live [OF live, of ex_env ex_world] by (simp add: ex_env_def)
  show ?thesis
    using idle cl wt
      no_session_lifecycle [where c = ex_idle and env = ex_env and w = ex_world
        and ?env1.0 = ex_env and d = ex_live and ?w1.0 = ex_world and ?r1.0 = None
        and d' = "ex_live\<lparr>sess := None, client := None\<rparr>"
        and w1' = "emit [EvSessClose ex_session, EvClientClose 1] ex_world"
        and ?env2.0 = ex_env
        and ?env3.0 = ex_env and e = ex_live and ?w3.0 = ex_world and ?r3.0 = None
        and e' = "ex_live\<lparr>sess := None, client := None\<rparr>"
        and w3' = "emit [EvSessWait ex_session, EvSessClose ex_session, EvClientClose 1] ex_world"
        and ?env4.0 = ex_env]
    by simp
qed

section \<open>Credentials\<close>

text \<open>
  C2. A handle without signers has no session. On such a handle Start, StdinPipe,
  StdoutPipe and StderrPipe return the error "no private keys available" and leave the
  handle and the world as they were: no call to the outside is made, so nothing is
  dialled. SetStdio keeps the handle in that state (Close, Wait and Kill do so too, as
  they change nothing without a session), and Command yields such a handle when the
  client has no signers and the process-wide key source is empty.
\<close>

theorem no_credentials_no_dial:
  "(signers c = [] \<and> sess c = None \<longrightarrow>
      Start env c w = (Some (Errorf ''no private keys available''), c, w) \<and>
      StdinPipe env c w = ((None, None, Some (Errorf ''no private keys available'')), c, w) \<and>
      StdoutPipe env c w = ((None, None, Some (Errorf ''no private keys available'')), c, w) \<and>
      StderrPipe env c w = ((None, None, Some (Errorf ''no private keys available'')), c, w) \<and>
      signers (SetStdio i out err c) = [] \<and> sess (SetStdio i out err c) = None) \<and>
   (client_signers k = [] \<and> privateKeys env0 = [] \<longrightarrow>
      signers (fst (Command env0 k host cmd options w0)) = [] \<and>
      sess (fst (Command env0 k host cmd options w0)) = None)"
  by (simp add: Start_def StdinPipe_def StdoutPipe_def StderrPipe_def SetStdio_def
      ensureSession_no_signers Command_unfold)

theorem no_credentials_no_dial_witness:
  "client_signers ex_nokeys_client = [] \<and> privateKeys ex_env = [] \<and>
   signers (fst (Command ex_env ex_nokeys_client ''host'' [''ls''] None ex_world)) = [] \<and>
   sess (fst (Command ex_env ex_nokeys_client ''host'' [''ls''] None ex_world)) = None \<and>
   Start ex_env (fst (Command ex_env ex_nokeys_client ''host'' [''ls''] None ex_world))
       (snd (Command ex_env ex_nokeys_client ''host'' [''ls''] None ex_world)) =
     (Some (Errorf ''no private keys available''),
      fst (Command ex_env ex_nokeys_client ''host'' [''ls''] None ex_world),
      snd (Command ex_env ex_nokeys_client ''host'' [''ls''] None ex_world))"
proof -
  have k: "client_signers ex_nokeys_client = []" "privateKeys ex_env = []"
    by (simp_all add: ex_nokeys_client_def ex_env_def)
  have c: "signers (fst (Command ex_env ex_nokeys_client ''host'' [''ls''] None ex_world)) = []"
      "sess (fst (Command ex_env ex_nokeys_client ''host'' [''ls''] None ex_world)) = None"
    using k by (simp_all add: Command_unfold)
  show ?thesis
    using k c
      no_credentials_no_dial [where c = "fst (Command ex_env ex_nokeys_client ''host'' [''ls''] None ex_world)"
        and env = ex_env
        and w = "snd (Command ex_env ex_nokeys_client ''host'' [''ls''] None ex_world)"
        and k = ex_nokeys_client and ?env0.0 = ex_env]
    by simp
qed

section \<open>Substitution in the proxy command\<close>

text \<open>
  C10. When the address cannot be split into host and port and a proxy command is given,
  every argument of the proxy command has \<open>%h\<close> replaced by the whole address and then
  \<open>%r\<close> by the user of the configuration; no replacement of \<open>%p\<close> takes place. The
  replaced arguments are written back to the slice and are the argv of the proxy process.
\<close>

theorem unsplittable_address_substitution:
  assumes "SplitHostPort address = Inl err" and "heap w a \<noteq> []"
  shows "heap (snd (sshDialWithProxy env address (Some a) config w)) a =
           map (\<lambda>arg. Replace (Replace arg ''%h'' address) ''%r'' (User config)) (heap w a) \<and>
         spawned (trace (snd (sshDialWithProxy env address (Some a) config w))) =
           spawned (trace w) @
           [map (\<lambda>arg. Replace (Replace arg ''%h'' address) ''%r'' (User config)) (heap w a)]"
  using assms
  by (simp add: sshDialWithProxy_def Let_def substArg_no_port trace_emit heap_emit
      ssh_NewClientConn_heap ssh_NewClientConn_spawned spawned_append spawned_Cons
      spawned_Nil split: option.splits)

theorem unsplittable_address_substitution_witness:
  "SplitHostPort ''nohost'' = Inl MissingPort \<and> heap ex_world 0 \<noteq> [] \<and>
   heap (snd (sshDialWithProxy ex_env ''nohost'' (Some 0) \<lparr>User = ''me'', Auth = [7]\<rparr> ex_world)) 0
     = [''nc'', ''nohost'', ''%p''] \<and>
   spawned (trace (snd (sshDialWithProxy ex_env ''nohost'' (Some 0)
      \<lparr>User = ''me'', Auth = [7]\<rparr> ex_world))) = [[''nc'', ''nohost'', ''%p'']]"
proof -
  have h: "heap ex_world 0 \<noteq> []" by (simp add: ex_world_def)
  show ?thesis
    using unsplittable_address_substitution [OF SplitHostPort_nohost h, of ex_env
        "\<lparr>User = ''me'', Auth = [7]\<rparr>"]
    by (simp add: SplitHostPort_nohost ex_world_def Replace_examples spawned_Nil)
qed

section \<open>The argv of the proxy process\<close>

text \<open>
  C1, as the code has it. Command never reads a port out of the host argument: the port
  is the port option, or 22. With the template \<open>["nc","%h","%p"]\<close>, the host argument
  \<open>db\<close> and the port option 5432, a session establishment starts at most one proxy
  process, and then with exactly \<open>["nc","db","5432"]\<close>, whatever the client, the
  command and the answers of the outside are; it does start one when the handle has
  signers and the current user is known.
\<close>

theorem proxy_argv_from_port_option:
  assumes "heap w a = [''nc'', ''%h'', ''%p'']"
  shows "(spawned (trace (snd (snd (ensureSession env'
           (fst (Command env k ''db'' cmd (Some \<lparr>opt_port = 5432, opt_proxyCommand = Some a\<rparr>) w))
           (snd (Command env k ''db'' cmd (Some \<lparr>opt_port = 5432, opt_proxyCommand = Some a\<rparr>) w))))))
           = spawned (trace w) \<or>
          spawned (trace (snd (snd (ensureSession env'
           (fst (Command env k ''db'' cmd (Some \<lparr>opt_port = 5432, opt_proxyCommand = Some a\<rparr>) w))
           (snd (Command env k ''db'' cmd (Some \<lparr>opt_port = 5432, opt_proxyCommand = Some a\<rparr>) w))))))
           = spawned (trace w) @ [[''nc'', ''db'', ''5432'']]) \<and>
         ((client_signers k \<noteq> [] \<or> privateKeys env \<noteq> []) \<and> userCurrent env' = Inr u \<longrightarrow>
          spawned (trace (snd (snd (ensureSession env'
           (fst (Command env k ''db'' cmd (Some \<lparr>opt_port = 5432, opt_proxyCommand = Some a\<rparr>) w))
           (snd (Command env k ''db'' cmd (Some \<lparr>opt_port = 5432, opt_proxyCommand = Some a\<rparr>) w))))))
           = spawned (trace w) @ [[''nc'', ''db'', ''5432'']])"
proof -
  let ?c = "fst (Command env k ''db'' cmd (Some \<lparr>opt_port = 5432, opt_proxyCommand = Some a\<rparr>) w)"
  let ?w = "snd (Command env k ''db'' cmd (Some \<lparr>opt_port = 5432, opt_proxyCommand = Some a\<rparr>) w)"
  let ?s = "spawned (trace (snd (snd (ensureSession env' ?c ?w))))"
  have c: "sess ?c = None" "user ?c = []"
    by (simp_all add: Command_unfold splitUserHost_db)
  have w: "spawned (trace ?w) = spawned (trace w)"
    by (simp add: Command_unfold trace_emit spawned_append spawned_Cons spawned_Nil)
  have first: "?s = spawned (trace w) \<or> ?s = spawned (trace w) @ [[''nc'', ''db'', ''5432'']]"
  proof (cases "signers ?c = []")
    case True
    then show ?thesis
      using w by (simp add: ensureSession_no_signers [OF True c(1)])
  next
    case keys: False
    then have k: "client_signers k \<noteq> [] \<or> privateKeys env \<noteq> []"
      by (auto simp: Command_unfold split: if_splits)
    show ?thesis
    proof (cases "userCurrent env'")
      case (Inl err)
      show ?thesis
        using w
        by (simp add: ensureSession_user_fails [OF c(1) keys c(2) Inl] trace_emit
            spawned_append spawned_Cons spawned_Nil)
    next
      case (Inr name)
      show ?thesis
        using proxy_spawn_db [OF assms k Inr] by simp
    qed
  qed
  have second: "(client_signers k \<noteq> [] \<or> privateKeys env \<noteq> []) \<and> userCurrent env' = Inr u
      \<longrightarrow> ?s = spawned (trace w) @ [[''nc'', ''db'', ''5432'']]"
    using proxy_spawn_db [OF assms] by blast
  show ?thesis
    using first second by blast
qed

theorem proxy_argv_from_port_option_witness:
  "heap ex_world 0 = [''nc'', ''%h'', ''%p''] \<and>
   client_signers ex_client = [7] \<and>
   userCurrent ex_env = Inr ''me'' \<and>
   spawned (trace (snd (snd (ensureSession ex_env
     (fst (Command ex_env ex_client ''db'' [''ls''] (Some ex_options_5432) ex_world))
     (snd (Command ex_env ex_client ''db'' [''ls''] (Some ex_options_5432) ex_world))))))
   = [[''nc'', ''db'', ''5432'']]"
proof -
  have a: "heap ex_world 0 = [''nc'', ''%h'', ''%p'']"
    by (simp add: ex_world_def)
  have b: "client_signers ex_client = [7]"
    by (simp add: ex_client_def)
  have c: "userCurrent ex_env = Inr ''me''"
    by (simp add: ex_env_def)
  have t: "spawned (trace ex_world) = []"
    by (simp add: ex_world_def spawned_Nil)
  show ?thesis
    using a b c t
      proxy_argv_from_port_option [OF a, of ex_env ex_env ex_client "[''ls'']" "''me''"]
    by (simp add: ex_options_5432_def)
qed

text \<open>
  C1, as stated, fails: with the host argument \<open>db:5432\<close> and no port option the address
  is \<open>[db:5432]:22\<close>, and the proxy process is started with
  \<open>["nc","db:5432","22"]\<close>.
\<close>

theorem host_with_port_spawn_argv:
  "spawned (trace (snd (snd (ensureSession ex_env
     (fst (Command ex_env ex_client ''db:5432'' [''ls''] (Some ex_options) ex_world))
     (snd (Command ex_env ex_client ''db:5432'' [''ls''] (Some ex_options) ex_world))))))
   = [[''nc'', ''db:5432'', ''22'']] \<and>
   spawned (trace (snd (snd (ensureSession ex_env
     (fst (Command ex_env ex_client ''db:5432'' [''ls''] (Some ex_options) ex_world))
     (snd (Command ex_env ex_client ''db:5432'' [''ls''] (Some ex_options) ex_world))))))
   \<noteq> [[''nc'', ''db'', ''5432'']]"
proof -
  let ?c = "fst (Command ex_env ex_client ''db:5432'' [''ls''] (Some ex_options) ex_world)"
  let ?w = "snd (Command ex_env ex_client ''db:5432'' [''ls''] (Some ex_options) ex_world)"
  have c: "sess ?c = None" "signers ?c \<noteq> []" "user ?c = []" "addr ?c = ''[db:5432]:22''"
      "proxyCommand ?c = Some 0"
    by (simp_all add: Command_unfold splitUserHost_db_5432 Itoa_22 JoinHostPort_def
        ex_client_def ex_options_def)
  have w: "heap ?w 0 = [''nc'', ''%h'', ''%p'']" "spawned (trace ?w) = []"
    by (simp_all add: Command_unfold heap_emit trace_emit spawned_append spawned_Cons
        spawned_Nil ex_world_def ex_client_def)
  have u: "user ?c \<noteq> [] \<or> userCurrent ex_env = Inr ''me''"
    by (simp add: ex_env_def)
  have h: "heap (emit [EvUserCurrent] ?w) 0 \<noteq> []"
    using w by (simp add: heap_emit)
  have "spawned (trace (snd (snd (ensureSession ex_env ?c ?w)))) = [[''nc'', ''db:5432'', ''22'']]"
    using ensureSession_world(2) [OF c(1) c(2) u, of ?w]
      sshDialWithProxy_proxy_spawned [OF h, of ex_env "''[db:5432]:22''"
        "\<lparr>User = ''me'', Auth = signers ?c\<rparr>"]
    by (simp add: c w heap_emit trace_emit spawned_append spawned_Cons spawned_Nil
        SplitHostPort_bracketed substArg_template)
  then show ?thesis by simp
qed

section \<open>The options after Command\<close>

text \<open>
  C4 at a concrete input. The handle holds the very slice of the caller's options, and
  the dial writes the replaced arguments into it. After the first handle (host \<open>db\<close>)
  has established its session, the template that the options name reads
  \<open>["nc","db","5432"]\<close>; a second handle made from the same options for host
  \<open>other\<close> (address \<open>other:5432\<close>) then starts its proxy towards \<open>db\<close> again.
\<close>

theorem shared_template_overwritten:
  "heap ex_world 0 = [''nc'', ''%h'', ''%p''] \<and>
   opt_proxyCommand ex_options_5432 = Some 0 \<and>
   heap (snd (snd ex_first_est)) 0 = [''nc'', ''db'', ''5432''] \<and>
   addr (fst ex_second) = ''other:5432'' \<and>
   spawned (trace (snd (snd ex_second_est))) =
     [[''nc'', ''db'', ''5432''], [''nc'', ''db'', ''5432'']]"
proof -
  let ?c = "fst ex_second"
  let ?w = "snd ex_second"
  have c: "sess ?c = None" "signers ?c \<noteq> []" "user ?c = []" "addr ?c = ''other:5432''"
      "proxyCommand ?c = Some 0"
    by (simp_all add: ex_second_def Command_unfold splitUserHost_other Itoa_5432
        JoinHostPort_def ex_client_def ex_options_5432_def)
  have w: "heap ?w 0 = [''nc'', ''db'', ''5432'']"
      "spawned (trace ?w) = [[''nc'', ''db'', ''5432'']]"
    by (simp_all add: ex_second_def Command_unfold heap_emit trace_emit spawned_append
        spawned_Cons spawned_Nil ex_first_est_world ex_client_def)
  have u: "user ?c \<noteq> [] \<or> userCurrent ex_env = Inr ''me''"
    by (simp add: ex_env_def)
  have h: "heap (emit [EvUserCurrent] ?w) 0 \<noteq> []"
    using w by (simp add: heap_emit)
  have "spawned (trace (snd (snd ex_second_est))) =
     [[''nc'', ''db'', ''5432''], [''nc'', ''db'', ''5432'']]"
    using ensureSession_world(2) [OF c(1) c(2) u, of ?w]
      sshDialWithProxy_proxy_spawned [OF h, of ex_env "''other:5432''"
        "\<lparr>User = ''me'', Auth = signers ?c\<rparr>"]
    by (simp add: ex_second_est_def c w heap_emit trace_emit spawned_append spawned_Cons
        spawned_Nil SplitHostPort_other substArg_substituted)
  then show ?thesis
    by (simp add: ex_first_est_world c ex_world_def ex_options_5432_def)
qed

section \<open>Construction of a handle\<close>

text \<open>
  C5, as the code has it. Command cannot fail and is fully described by its result: the
  host argument is split at the first \<open>@\<close> into user and hostname, the address joins
  the hostname with the port option (22 when there are no options or the option is 0),
  the command is the joined argv, the proxy command is the slice named by the options. It
  dials nothing and starts nothing; what it does to the outside is to read the
  process-wide key source, when the client has no signers, and to write one trace line.
  The signers it finds then are bound to the handle.
\<close>

theorem Command_construction:
  "Command env k host cmd options w =
     (\<lparr>signers = (if client_signers k = [] then privateKeys env else client_signers k),
       user = fst (splitUserHost host),
       addr = JoinHostPort (snd (splitUserHost host))
                (Itoa (case options of
                         None \<Rightarrow> 22
                       | Some opt \<Rightarrow> if opt_port opt \<noteq> 0 then opt_port opt else 22)),
       command = CommandString cmd,
       proxyCommand = (case options of None \<Rightarrow> None | Some opt \<Rightarrow> opt_proxyCommand opt),
       stdin = None, stdout = None, stderr = None, client = None, sess = None\<rparr>,
      emit ((if client_signers k = [] then [EvPrivateKeys] else []) @
            [EvTraceRun (fst (splitUserHost host)) (snd (splitUserHost host))
               (case options of
                  None \<Rightarrow> 22
                | Some opt \<Rightarrow> if opt_port opt \<noteq> 0 then opt_port opt else 22)
               (CommandString cmd)]) w)"
  by (rule Command_unfold)

text \<open>
  C5, as stated, fails: for a client without signers Command reads the process-wide key
  source, and session establishment never does. A handle made while that source was empty
  fails with "no private keys available" even when the source holds a key at Start.
\<close>

theorem Command_reads_default_keys:
  "client_signers ex_nokeys_client = [] \<and>
   trace (snd (Command ex_env_keys ex_nokeys_client ''host'' [''ls''] None ex_world)) =
     [EvPrivateKeys, EvTraceRun '''' ''host'' 22 ''ls''] \<and>
   signers (fst (Command ex_env_keys ex_nokeys_client ''host'' [''ls''] None ex_world)) = [7] \<and>
   fst (Start ex_env_keys
         (fst (Command ex_env ex_nokeys_client ''host'' [''ls''] None ex_world))
         (snd (Command ex_env ex_nokeys_client ''host'' [''ls''] None ex_world))) =
     Some (Errorf ''no private keys available'')"
  by (simp add: Command_unfold splitUserHost_host trace_emit ex_nokeys_client_def
      ex_env_keys_def ex_env_def ex_world_def Start_def ensureSession_def)

section \<open>The request made by Start\<close>

text \<open>
  C8, as the code has it. When the session is established, Start asks for an interactive
  shell if the command string of the handle is empty, and otherwise for the execution of
  exactly that string with one exec request; when establishment fails, Start returns its
  error and asks for nothing. The command string is the joined argv given to Command.
\<close>

theorem Start_request:
  "(ensureSession env c w = (Inr s, c1, w1) \<longrightarrow>
      Start env c w =
        (if command c = ''''
         then (sessShell env s, c1, emit [EvSessShell s] w1)
         else (sessStart env s (command c), c1, emit [EvSessStart s (command c)] w1))) \<and>
   (ensureSession env c w = (Inl e, c1, w1) \<longrightarrow> Start env c w = (Some e, c1, w1)) \<and>
   command (fst (Command env0 k host cmd options w0)) = CommandString cmd"
  by (auto simp: Start_def Command_unfold dest: ensureSession_command)

theorem Start_request_witness:
  "ensureSession ex_env ex_idle ex_world =
     (Inr ex_session, ex_idle\<lparr>client := Some 1, sess := Some ex_session\<rparr>,
      emit [EvSshDial ''host:22'' \<lparr>User = ''alice'', Auth = [7]\<rparr>, EvConnOpen 1,
            EvNewClientConn 1 ''host:22'' \<lparr>User = ''alice'', Auth = [7]\<rparr>,
            EvNewSession 1] ex_world) \<and>
   Start ex_env ex_idle ex_world =
     (None, ex_idle\<lparr>client := Some 1, sess := Some ex_session\<rparr>,
      emit [EvSshDial ''host:22'' \<lparr>User = ''alice'', Auth = [7]\<rparr>, EvConnOpen 1,
            EvNewClientConn 1 ''host:22'' \<lparr>User = ''alice'', Auth = [7]\<rparr>,
            EvNewSession 1, EvSessStart ex_session ''ls''] ex_world)"
  using ensureSession_ex_idle
    Start_request [where env = ex_env and c = ex_idle and w = ex_world and s = ex_session
      and ?c1.0 = "ex_idle\<lparr>client := Some 1, sess := Some ex_session\<rparr>"
      and ?w1.0 = "emit [EvSshDial ''host:22'' \<lparr>User = ''alice'', Auth = [7]\<rparr>, EvConnOpen 1,
                         EvNewClientConn 1 ''host:22'' \<lparr>User = ''alice'', Auth = [7]\<rparr>,
                         EvNewSession 1] ex_world"]
  by (simp add: ex_idle_def ex_env_def emit_emit)

text \<open>
  C8, as stated, fails: the argv \<open>[""]\<close> is not empty, its joined command string is, and
  Start asks for a shell.
\<close>

theorem Start_empty_argument_shell:
  "command (fst (Command ex_env ex_client ''alice@host'' [''''] None ex_world)) = '''' \<and>
   trace (snd (snd (Start ex_env
      (fst (Command ex_env ex_client ''alice@host'' [''''] None ex_world))
      (snd (Command ex_env ex_client ''alice@host'' [''''] None ex_world))))) =
     [EvTraceRun ''alice'' ''host'' 22 '''',
      EvSshDial ''host:22'' \<lparr>User = ''alice'', Auth = [7]\<rparr>,
      EvConnOpen 1,
      EvNewClientConn 1 ''host:22'' \<lparr>User = ''alice'', Auth = [7]\<rparr>,
      EvNewSession 1,
      EvSessShell \<lparr>sess_id = 3, Stdin = None, Stdout = None, Stderr = None\<rparr>]"
  by (simp add: Command_unfold splitUserHost_alice Itoa_22 JoinHostPort_def trace_emit
      ex_client_def ex_env_def ex_world_def Start_def ensureSession_def sshDialWithProxy_def
      ssh_Dial_def ssh_NewClientConn_def Let_def emit_def)

section \<open>Failure of session establishment\<close>



end
